theory Spec2Isabelle
  imports Main "HOL-Library.Char_ord" "HOL-Library.List_Lexorder" "HOL-Library.AList"
begin

section \<open>Data model\<close>

text \<open>
  A shallow embedding of \<^verbatim>\<open>pkg/builder/http_request_builder.go\<close>.
  Byte slices and strings are \<open>char list\<close>; a nil slice and an empty slice are both \<open>[]\<close>.
  A Go \<^verbatim>\<open>map[string]string\<close> is an association list whose order stands for the order in
  which a \<^verbatim>\<open>range\<close> loop of the runtime visits the entries; the nil map is \<open>None\<close>.
  A Go \<^verbatim>\<open>error\<close> of the standard library is represented by its message.
\<close>

type_synonym bytes = string

type_synonym gomap = "(string \<times> string) list"

datatype anyval = AnyNil | AnyBool bool | AnyNum int | AnyStr string

text \<open>\<^verbatim>\<open>Response[E]\<close>: the envelope a body is decoded into.\<close>

record 'e Response =
  Success :: bool
  Data :: 'e

text \<open>\<^verbatim>\<open>HttpResponse[E]\<close> (http\_response.go).\<close>

record 'e HttpResponse =
  Status :: string
  Body :: bytes
  StatusCode :: int
  Url :: string
  Method :: string
  Headers :: "gomap option"
  Result :: "'e Response"
  ErrorsMap :: "(string \<times> anyval) list option"

text \<open>\<^verbatim>\<open>HttpStatement\<close> (http\_statement.go), the record handed to the debug sink.\<close>

record HttpStatement =
  st_Time :: string
  st_Status :: int
  st_Timeout :: string
  st_Method :: string
  st_Url :: string
  st_Error :: string
  st_Body :: string
  st_QueryParams :: "gomap option"
  st_Headers :: "gomap option"
  st_Response :: "(string \<times> anyval) list option"
  st_Duration :: int

text \<open>
  The debug sink of gosdk-core, reached through the context: the statements added to it,
  each with its category and duration. \<open>None\<close> is a context that carries no sink.
\<close>

type_synonym Debug = "(string \<times> int \<times> HttpStatement list) list"

record Context =
  debug :: "Debug option"

text \<open>The errors a call can end with, named by the step that produced them.\<close>

datatype error =
    InvalidURL string
  | RequestConstructionError string
  | NetworkError string
  | UnmarshalError string
  | ServerError string string int
  | NilDereference

section \<open>The standard library and the network\<close>

text \<open>
  \<^verbatim>\<open>net/url.URL\<close>, as far as the builder touches it: the raw query is a field of its own,
  everything else stays as the parser left it.
\<close>

record URL =
  Scheme :: string
  Host :: string
  Path :: string
  RawQuery :: string
  Fragment :: string

text \<open>\<^verbatim>\<open>net/url.Values\<close> is \<^verbatim>\<open>map[string][]string\<close>; \<^verbatim>\<open>http.Header\<close> has the same shape.\<close>

type_synonym Values = "(string \<times> string list) list"

text \<open>A response body: the bytes a reader delivers and the error it ends with (\<open>None\<close> at EOF).\<close>

datatype reader = Reader bytes "string option"

record Request =
  req_Method :: string
  req_URL :: URL
  req_Header :: Values
  req_Body :: "bytes option"

record RawResponse =
  resp_Status :: string
  resp_StatusCode :: int
  resp_Header :: Values
  resp_Body :: reader

text \<open>
  What the builder cannot decide by itself is a parameter: the encoders and the decoder of
  \<^verbatim>\<open>encoding/json\<close> and \<^verbatim>\<open>encoding/xml\<close> at the types the caller chose
  (\<open>'v\<close> for request values, \<open>'e\<close> for the payload), the URL parser and printer, the round
  trip through the transport, and the clock.
  \<open>json_Unmarshal body r\<close> returns the error and the value the decoder left in the variable
  that held \<open>r\<close>.
\<close>

record ('v, 'e) env =
  json_Marshal :: "'v \<Rightarrow> string + bytes"
  xml_Marshal :: "'v \<Rightarrow> string + bytes"
  json_Unmarshal :: "bytes \<Rightarrow> 'e Response \<Rightarrow> string option \<times> 'e Response"
  zero_E :: 'e
  url_Parse :: "string \<Rightarrow> string + URL"
  url_ParseQuery :: "string \<Rightarrow> Values"
  URL_String :: "URL \<Rightarrow> string"
  CanonicalMIMEHeaderKey :: "string \<Rightarrow> string"
  client_Do :: "int \<Rightarrow> Request \<Rightarrow> string + RawResponse"
  time_Since :: int
  GetDurationAsString :: "int \<Rightarrow> string"
  constants_JSON :: string

text \<open>\<^verbatim>\<open>io.ReadAll\<close> returns the data read until EOF or an error, and that error.\<close>

fun ReadAll :: "reader \<Rightarrow> bytes \<times> string option" where
  "ReadAll (Reader bs e) = (bs, e)"

text \<open>\<^verbatim>\<open>Values.Set\<close> and \<^verbatim>\<open>Values.Get\<close>-style lookup: \<^verbatim>\<open>v[key] = []string{value}\<close>.\<close>

definition Values_Set :: "Values \<Rightarrow> string \<Rightarrow> string \<Rightarrow> Values" where
  "Values_Set v key val = AList.update key [val] v"

definition Values_lookup :: "Values \<Rightarrow> string \<Rightarrow> string list" where
  "Values_lookup v key = (case map_of v key of None \<Rightarrow> [] | Some vs \<Rightarrow> vs)"

text \<open>
  \<^verbatim>\<open>url.QueryEscape\<close>: letters, digits and \<^verbatim>\<open>- _ . ~\<close> stay, a space becomes \<^verbatim>\<open>+\<close>,
  every other byte becomes \<^verbatim>\<open>%XX\<close> in upper-case hexadecimal.
\<close>

definition inRange :: "char \<Rightarrow> char \<Rightarrow> char \<Rightarrow> bool" where
  "inRange lo hi c = (lo \<le> c \<and> c \<le> hi)"

definition isAlnum :: "char \<Rightarrow> bool" where
  "isAlnum c =
     (inRange (CHR ''a'') (CHR ''z'') c \<or> inRange (CHR ''A'') (CHR ''Z'') c
      \<or> inRange (CHR ''0'') (CHR ''9'') c)"

definition shouldEscape :: "char \<Rightarrow> bool" where
  "shouldEscape c = (\<not> isAlnum c \<and> c \<notin> set ''-_.~'')"

definition upperhex :: "nat \<Rightarrow> char" where
  "upperhex n = ''0123456789ABCDEF'' ! (n mod 16)"

definition escape_byte :: "char \<Rightarrow> string" where
  "escape_byte c =
     (if c = CHR '' '' then ''+''
      else if shouldEscape c
        then [CHR ''%'', upperhex (of_char c div 16), upperhex (of_char c mod 16)]
      else [c])"

definition QueryEscape :: "string \<Rightarrow> string" where
  "QueryEscape s = concat (map escape_byte s)"

text \<open>\<^verbatim>\<open>strings.Join\<close>.\<close>

fun Join :: "string list \<Rightarrow> string \<Rightarrow> string" where
  "Join [] sep = []"
| "Join [x] sep = x"
| "Join (x # y # ys) sep = x @ sep @ Join (y # ys) sep"

text \<open>
  \<^verbatim>\<open>Values.Encode\<close>: the keys are collected and sorted, and every value of every key is
  written as \<^verbatim>\<open>key=value\<close>, both escaped, with \<^verbatim>\<open>&\<close> between the pairs.
\<close>

definition encode_pairs :: "(string \<Rightarrow> string list) \<Rightarrow> string list \<Rightarrow> string list" where
  "encode_pairs get ks =
     concat (map (\<lambda>k. map (\<lambda>x. QueryEscape k @ ''='' @ QueryEscape x) (get k)) ks)"

definition Encode :: "Values \<Rightarrow> string" where
  "Encode v = Join (encode_pairs (Values_lookup v) (sort (remdups (map fst v)))) ''&''"

text \<open>\<^verbatim>\<open>Header.Set\<close>: the key is canonicalised, the value replaces what was stored.\<close>

definition Header_Set :: "('v, 'e) env \<Rightarrow> Request \<Rightarrow> string \<Rightarrow> string \<Rightarrow> Request" where
  "Header_Set env req k v =
     req\<lparr>req_Header := AList.update (CanonicalMIMEHeaderKey env k) [v] (req_Header req)\<rparr>"

text \<open>
  \<^verbatim>\<open>http.NewRequestWithContext\<close>: an empty method means GET, the method must be a token,
  and the URL is parsed; the first failure is returned. (The context is never nil here.)
\<close>

definition isTokenChar :: "char \<Rightarrow> bool" where
  "isTokenChar c = (isAlnum c \<or> c \<in> set ''!#$%&*+-.^_`|~'' \<or> c = CHR 0x27)"

definition validMethod :: "string \<Rightarrow> bool" where
  "validMethod m = (m \<noteq> [] \<and> list_all isTokenChar m)"

definition NewRequestWithContext ::
  "('v, 'e) env \<Rightarrow> Context \<Rightarrow> string \<Rightarrow> string \<Rightarrow> bytes option \<Rightarrow> string + Request" where
  "NewRequestWithContext env c m rawURL bd =
     (let m' = (if m = [] then ''GET'' else m) in
      if \<not> validMethod m' then Inl (''net/http: invalid method '' @ m')
      else case url_Parse env rawURL of
             Inl e \<Rightarrow> Inl e
           | Inr u \<Rightarrow> Inr \<lparr>req_Method = m', req_URL = u, req_Header = [], req_Body = bd\<rparr>)"

section \<open>The builder\<close>

text \<open>
  \<^verbatim>\<open>HttpRequestBuilder[E]\<close>. \<open>body\<close> is the reader over the marshalled bytes (\<open>None\<close> is
  the nil reader); the transport field is the round trip of the environment.
\<close>

record 'e HttpRequestBuilder =
  url :: string
  method' :: string
  headers :: "gomap option"
  queryParams :: "gomap option"
  body :: "bytes option"
  rawBodyBytes :: bytes
  timeout :: int
  request :: "Request option"
  response :: "'e HttpResponse option"
  responseDataPresentation :: string
  ctx :: Context
  execTime :: int
  throwUnmarshalError :: bool

definition second :: int where
  "second = 1000000000"

definition newBuilder ::
  "('v, 'e) env \<Rightarrow> Context \<Rightarrow> string \<Rightarrow> string \<Rightarrow> 'e HttpRequestBuilder" where
  "newBuilder env c rawURL m =
     \<lparr>url = rawURL, method' = m, headers = None, queryParams = None, body = None,
      rawBodyBytes = [], timeout = 30 * second, request = None, response = None,
      responseDataPresentation = constants_JSON env, ctx = c, execTime = 0,
      throwUnmarshalError = True\<rparr>"

definition NewPostHttpRequestBuilder ::
  "('v, 'e) env \<Rightarrow> Context \<Rightarrow> string \<Rightarrow> 'e HttpRequestBuilder" where
  "NewPostHttpRequestBuilder env c u = newBuilder env c u ''POST''"

definition NewPutHttpRequestBuilder ::
  "('v, 'e) env \<Rightarrow> Context \<Rightarrow> string \<Rightarrow> 'e HttpRequestBuilder" where
  "NewPutHttpRequestBuilder env c u = newBuilder env c u ''PUT''"

definition NewPatchHttpRequestBuilder ::
  "('v, 'e) env \<Rightarrow> Context \<Rightarrow> string \<Rightarrow> 'e HttpRequestBuilder" where
  "NewPatchHttpRequestBuilder env c u = newBuilder env c u ''PATCH''"

definition NewGetHttpRequestBuilder ::
  "('v, 'e) env \<Rightarrow> Context \<Rightarrow> string \<Rightarrow> 'e HttpRequestBuilder" where
  "NewGetHttpRequestBuilder env c u = newBuilder env c u ''GET''"

definition NewDeleteHttpRequestBuilder ::
  "('v, 'e) env \<Rightarrow> Context \<Rightarrow> string \<Rightarrow> 'e HttpRequestBuilder" where
  "NewDeleteHttpRequestBuilder env c u = newBuilder env c u ''DELETE''"

subsection \<open>Configuration\<close>

definition SetRequestHeaders :: "gomap option \<Rightarrow> 'e HttpRequestBuilder \<Rightarrow> 'e HttpRequestBuilder" where
  "SetRequestHeaders h b = b\<lparr>headers := h\<rparr>"

definition SetQueryParams :: "gomap option \<Rightarrow> 'e HttpRequestBuilder \<Rightarrow> 'e HttpRequestBuilder" where
  "SetQueryParams q b = b\<lparr>queryParams := q\<rparr>"

definition SetRequestTimeout :: "int \<Rightarrow> 'e HttpRequestBuilder \<Rightarrow> 'e HttpRequestBuilder" where
  "SetRequestTimeout t b = b\<lparr>timeout := t\<rparr>"

definition SetThrowUnmarshalError :: "bool \<Rightarrow> 'e HttpRequestBuilder \<Rightarrow> 'e HttpRequestBuilder" where
  "SetThrowUnmarshalError v b = b\<lparr>throwUnmarshalError := v\<rparr>"

subsection \<open>Body helpers\<close>

text \<open>
  Modelled from the spec: the constant \<^verbatim>\<open>httpheader.ContentType\<close> of gookit/goutil, the
  header name \<^verbatim>\<open>Content-Type\<close>.
\<close>

definition ContentType :: string where
  "ContentType = ''Content-Type''"

definition ensureHeaders :: "'e HttpRequestBuilder \<Rightarrow> 'e HttpRequestBuilder" where
  "ensureHeaders b = (if headers b = None then b\<lparr>headers := Some []\<rparr> else b)"

text \<open>\<^verbatim>\<open>b.headers[k] = v\<close>; an assignment into the nil map panics in Go and is not reached.\<close>

definition headers_put :: "string \<Rightarrow> string \<Rightarrow> 'e HttpRequestBuilder \<Rightarrow> 'e HttpRequestBuilder" where
  "headers_put k v b =
     (case headers b of
        None \<Rightarrow> b
      | Some h \<Rightarrow> b\<lparr>headers := Some (AList.update k v h)\<rparr>)"

text \<open>
  The body setters return the builder and the errors they handed to \<^verbatim>\<open>logger.LogError\<close>.
\<close>

definition SetJSONBody ::
  "('v, 'e) env \<Rightarrow> 'v \<Rightarrow> 'e HttpRequestBuilder \<Rightarrow> 'e HttpRequestBuilder \<times> string list" where
  "SetJSONBody env v b =
     (case json_Marshal env v of
        Inl err \<Rightarrow> (b, [err])
      | Inr data \<Rightarrow>
          (headers_put ContentType ''application/json''
             (ensureHeaders (b\<lparr>rawBodyBytes := data, body := Some data\<rparr>)), []))"

definition SetXMLBody ::
  "('v, 'e) env \<Rightarrow> 'v \<Rightarrow> 'e HttpRequestBuilder \<Rightarrow> 'e HttpRequestBuilder \<times> string list" where
  "SetXMLBody env v b =
     (case xml_Marshal env v of
        Inl err \<Rightarrow> (b, [err])
      | Inr data \<Rightarrow>
          (headers_put ContentType ''application/xml''
             (ensureHeaders (b\<lparr>rawBodyBytes := data, body := Some data\<rparr>)), []))"

subsection \<open>Utils\<close>

text \<open>\<^verbatim>\<open>len(m)\<close> and \<^verbatim>\<open>range m\<close> of a map that may be nil.\<close>

definition entries :: "gomap option \<Rightarrow> gomap" where
  "entries m = (case m of None \<Rightarrow> [] | Some xs \<Rightarrow> xs)"

definition buildURL :: "('v, 'e) env \<Rightarrow> 'e HttpRequestBuilder \<Rightarrow> error + string" where
  "buildURL env b =
     (if length (entries (queryParams b)) = 0 then Inr (url b)
      else case url_Parse env (url b) of
             Inl err \<Rightarrow> Inl (InvalidURL err)
           | Inr u \<Rightarrow>
               (let q = url_ParseQuery env (RawQuery u);
                    q' = fold (\<lambda>(k, v) q. Values_Set q k v) (entries (queryParams b)) q
                in Inr (URL_String env (u\<lparr>RawQuery := Encode q'\<rparr>))))"

subsection \<open>Execution\<close>

definition zero_Response :: "('v, 'e) env \<Rightarrow> 'e Response" where
  "zero_Response env = \<lparr>Success = False, Data = zero_E env\<rparr>"

text \<open>\<^verbatim>\<open>&HttpResponse[E]{Url: finalURL, Method: b.method}\<close>: every other field is zero.\<close>

definition placeholder :: "('v, 'e) env \<Rightarrow> string \<Rightarrow> string \<Rightarrow> 'e HttpResponse" where
  "placeholder env finalURL m =
     \<lparr>Status = [], Body = [], StatusCode = 0, Url = finalURL, Method = m, Headers = None,
      Result = zero_Response env, ErrorsMap = None\<rparr>"

definition do :: "('v, 'e) env \<Rightarrow> 'e HttpRequestBuilder \<Rightarrow> 'e HttpRequestBuilder \<times> error option" where
  "do env b0 =
     (let b = ensureHeaders b0 in
      case buildURL env b of
        Inl err \<Rightarrow> (b, Some err)
      | Inr finalURL \<Rightarrow>
          (case NewRequestWithContext env (ctx b) (method' b) finalURL (body b) of
             Inl err \<Rightarrow> (b, Some (RequestConstructionError err))
           | Inr req0 \<Rightarrow>
               (let req = fold (\<lambda>(k, v) r. Header_Set env r k v) (entries (headers b)) req0;
                    r = placeholder env finalURL (method' b);
                    b1 = b\<lparr>response := Some r\<rparr>
                in case client_Do env (timeout b) req of
                     Inl err \<Rightarrow> (b1, Some (NetworkError err))
                   | Inr resp \<Rightarrow>
                       (b1\<lparr>response :=
                            Some (r\<lparr>Status := resp_Status resp,
                                    StatusCode := resp_StatusCode resp,
                                    Body := fst (ReadAll (resp_Body resp))\<rparr>)\<rparr>,
                        None))))"

definition Do :: "('v, 'e) env \<Rightarrow> 'e HttpRequestBuilder \<Rightarrow> 'e HttpRequestBuilder \<times> error option" where
  "Do env b =
     (case do env b of (b1, err) \<Rightarrow> (b1\<lparr>execTime := time_Since env\<rparr>, err))"

subsection \<open>Logging and debug\<close>

definition setDebugInfo :: "('v, 'e) env \<Rightarrow> 'e HttpRequestBuilder \<Rightarrow> 'e HttpRequestBuilder" where
  "setDebugInfo env b =
     (case debug (ctx b) of
        None \<Rightarrow> b
      | Some d \<Rightarrow>
          (case response b of
             None \<Rightarrow> b
           | Some r \<Rightarrow>
               (let st = \<lparr>st_Time = GetDurationAsString env (execTime b),
                          st_Status = StatusCode r, st_Timeout = [], st_Method = method' b,
                          st_Url = Url r, st_Error = [], st_Body = rawBodyBytes b,
                          st_QueryParams = queryParams b, st_Headers = headers b,
                          st_Response = None, st_Duration = execTime b\<rparr>
                in b\<lparr>ctx := (ctx b)\<lparr>debug := Some (d @ [(''http'', execTime b, [st])])\<rparr>\<rparr>)))"

subsection \<open>Result\<close>

definition GetResult ::
  "('v, 'e) env \<Rightarrow> 'e HttpRequestBuilder \<Rightarrow> 'e HttpRequestBuilder \<times> (error + 'e HttpResponse)" where
  "GetResult env b0 =
     (case Do env b0 of
        (b, Some err) \<Rightarrow> (b, Inl err)
      | (b, None) \<Rightarrow>
          (case response b of
             None \<Rightarrow> (b, Inl NilDereference)
           | Some resp \<Rightarrow>
               (case json_Unmarshal env (Body resp) (zero_Response env) of
                  (uerr, r) \<Rightarrow>
                    if uerr \<noteq> None \<and> throwUnmarshalError b
                    then (b, Inl (UnmarshalError (the uerr)))
                    else
                      (let resp1 = resp\<lparr>Result := r\<rparr>;
                           b1 = setDebugInfo env (b\<lparr>response := Some resp1\<rparr>)
                       in if StatusCode resp1 \<ge> 500
                          then (b1, Inl (ServerError (method' b1) (Url resp1) (StatusCode resp1)))
                          else (b1, Inr resp1)))))"

section \<open>Notions the properties are stated with\<close>

text \<open>
  How far a call of \<open>do\<close> gets: \<open>None\<close> when it stops before the transport is asked
  (the URL or the request could not be built), otherwise the final URL and what the
  transport answered to the request with the configured headers applied.
\<close>

definition apply_headers :: "('v, 'e) env \<Rightarrow> gomap \<Rightarrow> Request \<Rightarrow> Request" where
  "apply_headers env h req0 = fold (\<lambda>(k, v) r. Header_Set env r k v) h req0"

definition round_trip ::
  "('v, 'e) env \<Rightarrow> 'e HttpRequestBuilder \<Rightarrow> (string \<times> (string + RawResponse)) option" where
  "round_trip env b =
     (case buildURL env b of
        Inl err \<Rightarrow> None
      | Inr finalURL \<Rightarrow>
          (case NewRequestWithContext env (ctx b) (method' b) finalURL (body b) of
             Inl err \<Rightarrow> None
           | Inr req0 \<Rightarrow>
               Some (finalURL,
                 client_Do env (timeout b) (apply_headers env (entries (headers b)) req0))))"

text \<open>
  The response a successful round trip leaves in the builder: status line, status code and
  the bytes \<open>ReadAll\<close> returned, under the final URL and the method.
\<close>

definition received :: "('v, 'e) env \<Rightarrow> string \<Rightarrow> string \<Rightarrow> RawResponse \<Rightarrow> 'e HttpResponse" where
  "received env finalURL m resp =
     \<lparr>Status = resp_Status resp, Body = fst (ReadAll (resp_Body resp)),
      StatusCode = resp_StatusCode resp, Url = finalURL, Method = m, Headers = None,
      Result = zero_Response env, ErrorsMap = None\<rparr>"

text \<open>A stored response whose envelope and error details are at their zero values.\<close>

definition envelope_zero :: "('v, 'e) env \<Rightarrow> 'e HttpResponse option \<Rightarrow> bool" where
  "envelope_zero env ro =
     (case ro of
        None \<Rightarrow> True
      | Some r \<Rightarrow> Result r = zero_Response env \<and> ErrorsMap r = None)"

text \<open>
  The query string the specification asks for, in its own words: the original query with
  every configured key overwritten or added, no other key altered, written in escaped
  form with the keys sorted.
\<close>

definition spec_merged :: "Values \<Rightarrow> gomap \<Rightarrow> string \<Rightarrow> string list" where
  "spec_merged q0 Q k =
     (case map_of Q k of
        Some v \<Rightarrow> [v]
      | None \<Rightarrow> (case map_of q0 k of Some vs \<Rightarrow> vs | None \<Rightarrow> []))"

definition spec_query :: "Values \<Rightarrow> gomap \<Rightarrow> string" where
  "spec_query q0 Q =
     Join (encode_pairs (spec_merged q0 Q)
             (sorted_list_of_set (fst ` set q0 \<union> fst ` set Q))) ''&''"

section \<open>An example environment\<close>

text \<open>
  A small world to run the builder in: values are strings (which every encoder accepts) or
  a channel (which none does), the payload type is \<open>int\<close>, and one host answers on a few
  paths.
\<close>

datatype val = VStr string | VChan

definition ex_Unmarshal :: "bytes \<Rightarrow> int Response \<Rightarrow> string option \<times> int Response" where
  \<open>ex_Unmarshal bs r =
     (if bs = ''{"success":true,"data":1}'' then (None, r\<lparr>Success := True, Data := 1\<rparr>)
      else if bs = ''{"success":false,"data":null}'' then (None, r\<lparr>Success := False\<rparr>)
      else if bs = ''{"success":true,"data":"x"}''
        then (Some ''json: cannot unmarshal string into Go struct field .data of type int'',
              r\<lparr>Success := True\<rparr>)
      else (Some ''invalid character looking for beginning of value'', r))\<close>

definition ex_Parse :: "string \<Rightarrow> string + URL" where
  "ex_Parse s =
     (if take 9 s = ''http://h/''
      then Inr \<lparr>Scheme = ''http'', Host = ''h'',
                Path = takeWhile (\<lambda>c. c \<noteq> CHR ''?'') (drop 8 s),
                RawQuery = drop 1 (dropWhile (\<lambda>c. c \<noteq> CHR ''?'') (drop 8 s)),
                Fragment = []\<rparr>
      else Inl ''missing protocol scheme'')"

definition ex_ParseQuery :: "string \<Rightarrow> Values" where
  "ex_ParseQuery s =
     (if s = ''page=1&size=5'' then [(''page'', [''1'']), (''size'', [''5''])] else [])"

definition ex_String :: "URL \<Rightarrow> string" where
  "ex_String u =
     Scheme u @ ''://'' @ Host u @ Path u
       @ (if RawQuery u = [] then [] else ''?'' @ RawQuery u)
       @ (if Fragment u = [] then [] else ''#'' @ Fragment u)"

definition ex_hdr :: Values where
  "ex_hdr = [(''Content-Type'', [''application/json''])]"

definition ex_ok :: RawResponse where
  \<open>ex_ok = \<lparr>resp_Status = ''200 OK'', resp_StatusCode = 200, resp_Header = ex_hdr,
            resp_Body = Reader ''{"success":true,"data":1}'' None\<rparr>\<close>

definition ex_mismatch :: RawResponse where
  \<open>ex_mismatch = \<lparr>resp_Status = ''200 OK'', resp_StatusCode = 200, resp_Header = ex_hdr,
                  resp_Body = Reader ''{"success":true,"data":"x"}'' None\<rparr>\<close>

definition ex_html :: RawResponse where
  "ex_html = \<lparr>resp_Status = ''200 OK'', resp_StatusCode = 200, resp_Header = [],
              resp_Body = Reader ''<html>'' None\<rparr>"

definition ex_missing :: RawResponse where
  \<open>ex_missing = \<lparr>resp_Status = ''404 Not Found'', resp_StatusCode = 404, resp_Header = ex_hdr,
                 resp_Body = Reader ''{"success":false,"data":null}'' None\<rparr>\<close>

definition ex_boom :: RawResponse where
  \<open>ex_boom = \<lparr>resp_Status = ''503 Service Unavailable'', resp_StatusCode = 503,
              resp_Header = ex_hdr,
              resp_Body = Reader ''{"success":false,"data":null}'' None\<rparr>\<close>

text \<open>A body that breaks off after six bytes: the read ends with an error.\<close>

definition ex_cut :: RawResponse where
  \<open>ex_cut = \<lparr>resp_Status = ''200 OK'', resp_StatusCode = 200, resp_Header = ex_hdr,
             resp_Body = Reader ''{"succ'' (Some ''unexpected EOF'')\<rparr>\<close>

definition ex_server :: "Request \<Rightarrow> string + RawResponse" where
  "ex_server req =
     (let p = Path (req_URL req) in
      if p = ''/items'' then Inr ex_ok
      else if p = ''/mismatch'' then Inr ex_mismatch
      else if p = ''/html'' then Inr ex_html
      else if p = ''/missing'' then Inr ex_missing
      else if p = ''/boom'' then Inr ex_boom
      else if p = ''/cut'' then Inr ex_cut
      else Inl ''dial tcp: connection refused'')"

definition ex_env :: "(val, int) env" where
  \<open>ex_env =
     \<lparr>json_Marshal =
        (\<lambda>v. case v of VStr s \<Rightarrow> Inr ([CHR 0x22] @ s @ [CHR 0x22])
                      | VChan \<Rightarrow> Inl ''json: unsupported type: chan int''),
      xml_Marshal =
        (\<lambda>v. case v of VStr s \<Rightarrow> Inr (''<string>'' @ s @ ''</string>'')
                      | VChan \<Rightarrow> Inl ''xml: unsupported type: chan int''),
      json_Unmarshal = ex_Unmarshal,
      zero_E = 0,
      url_Parse = ex_Parse,
      url_ParseQuery = ex_ParseQuery,
      URL_String = ex_String,
      CanonicalMIMEHeaderKey = (\<lambda>k. k),
      client_Do = (\<lambda>t req. ex_server req),
      time_Since = 5,
      GetDurationAsString = (\<lambda>d. ''5ns''),
      constants_JSON = ''json''\<rparr>\<close>

definition ex_ctx :: Context where
  "ex_ctx = \<lparr>debug = None\<rparr>"

definition ex_get :: "string \<Rightarrow> int HttpRequestBuilder" where
  "ex_get u = NewGetHttpRequestBuilder ex_env ex_ctx u"

text \<open>A POST builder whose caller has already chosen a content type.\<close>

definition ex_plain :: "int HttpRequestBuilder" where
  "ex_plain = SetRequestHeaders (Some [(''Content-Type'', ''text/plain''), (''X-Request-Id'', ''abc-123'')])
     (NewPostHttpRequestBuilder ex_env ex_ctx ''http://h/items'')"

text \<open>A GET builder with two query parameters, one of which needs escaping.\<close>

definition ex_paged :: "string \<Rightarrow> int HttpRequestBuilder" where
  "ex_paged u = SetQueryParams (Some [(''page'', ''2''), (''q'', ''a b'')]) (ex_get u)"

section \<open>Properties\<close>

lemma entries_simps: "entries None = []" "entries (Some xs) = xs"
  by (simp_all add: entries_def)

lemma ensureHeaders_fields:
  "url (ensureHeaders b) = url b" "method' (ensureHeaders b) = method' b"
  "queryParams (ensureHeaders b) = queryParams b" "body (ensureHeaders b) = body b"
  "timeout (ensureHeaders b) = timeout b" "ctx (ensureHeaders b) = ctx b"
  "response (ensureHeaders b) = response b"
  "throwUnmarshalError (ensureHeaders b) = throwUnmarshalError b"
  "entries (headers (ensureHeaders b)) = entries (headers b)"
  by (simp_all add: ensureHeaders_def entries_def)

lemma buildURL_ensureHeaders: "buildURL env (ensureHeaders b) = buildURL env b"
  by (simp add: buildURL_def ensureHeaders_def Let_def split: sum.splits)

lemma do_stopped:
  "round_trip env b = None \<Longrightarrow> \<exists>e. do env b = (ensureHeaders b, Some e)"
  by (auto simp: round_trip_def do_def Let_def buildURL_ensureHeaders ensureHeaders_fields
      split: sum.splits)

lemma do_network_error:
  "round_trip env b = Some (u, Inl e) \<Longrightarrow>
   do env b = ((ensureHeaders b)\<lparr>response := Some (placeholder env u (method' b))\<rparr>,
               Some (NetworkError e))"
  by (auto simp: round_trip_def do_def Let_def buildURL_ensureHeaders ensureHeaders_fields
      apply_headers_def split: sum.splits)

lemma do_received:
  "round_trip env b = Some (u, Inr resp) \<Longrightarrow>
   do env b = ((ensureHeaders b)\<lparr>response := Some (received env u (method' b) resp)\<rparr>, None)"
  by (auto simp: round_trip_def do_def Let_def buildURL_ensureHeaders ensureHeaders_fields
      apply_headers_def received_def placeholder_def split: sum.splits)

lemma setDebugInfo_fields:
  "response (setDebugInfo env b) = response b" "method' (setDebugInfo env b) = method' b"
  by (simp_all add: setDebugInfo_def Let_def split: option.splits)

lemma GetResult_received:
  assumes "round_trip env b = Some (u, Inr resp)"
    and "json_Unmarshal env (fst (ReadAll (resp_Body resp))) (zero_Response env) = (uerr, r)"
  shows "snd (GetResult env b) =
     (if uerr \<noteq> None \<and> throwUnmarshalError b then Inl (UnmarshalError (the uerr))
      else if 500 \<le> resp_StatusCode resp
        then Inl (ServerError (method' b) u (resp_StatusCode resp))
      else Inr ((received env u (method' b) resp)\<lparr>Result := r\<rparr>))"
  using assms
  by (simp add: GetResult_def Do_def do_received ensureHeaders_fields setDebugInfo_fields Let_def
      received_def)

lemmas ex_rt_defs = round_trip_def buildURL_def entries_def NewRequestWithContext_def
  validMethod_def isTokenChar_def isAlnum_def inRange_def apply_headers_def ex_get_def NewGetHttpRequestBuilder_def
  newBuilder_def ex_env_def ex_ctx_def ex_Parse_def ex_server_def SetThrowUnmarshalError_def

lemma ex_rt_items:
  "round_trip ex_env (ex_get ''http://h/items'') = Some (''http://h/items'', Inr ex_ok)"
  by (simp add: ex_rt_defs)

lemma ex_rt_missing: "round_trip ex_env (ex_get ''http://h/missing'') = Some (''http://h/missing'', Inr ex_missing)"
  by (simp add: ex_rt_defs)

lemma ex_rt_boom: "round_trip ex_env (ex_get ''http://h/boom'') = Some (''http://h/boom'', Inr ex_boom)"
  by (simp add: ex_rt_defs)

lemma ex_rt_cut: "round_trip ex_env (ex_get ''http://h/cut'') = Some (''http://h/cut'', Inr ex_cut)"
  by (simp add: ex_rt_defs)

lemma ex_rt_down: "round_trip ex_env (ex_get ''http://h/down'') = Some (''http://h/down'', Inl ''dial tcp: connection refused'')"
  by (simp add: ex_rt_defs)

lemma ex_rt_mismatch:
  "round_trip ex_env (SetThrowUnmarshalError t (ex_get ''http://h/mismatch'')) = Some (''http://h/mismatch'', Inr ex_mismatch)"
  by (simp add: ex_rt_defs)

lemma ex_rt_html:
  "round_trip ex_env (SetThrowUnmarshalError t (ex_get ''http://h/html'')) = Some (''http://h/html'', Inr ex_html)"
  by (simp add: ex_rt_defs)

lemma ex_decode:
  "json_Unmarshal ex_env (fst (ReadAll (resp_Body ex_ok))) (zero_Response ex_env) = (None, \<lparr>Success = True, Data = 1\<rparr>)"
  "json_Unmarshal ex_env (fst (ReadAll (resp_Body ex_missing))) (zero_Response ex_env) = (None, \<lparr>Success = False, Data = 0\<rparr>)"
  "json_Unmarshal ex_env (fst (ReadAll (resp_Body ex_boom))) (zero_Response ex_env) = (None, \<lparr>Success = False, Data = 0\<rparr>)"
  "json_Unmarshal ex_env (fst (ReadAll (resp_Body ex_mismatch))) (zero_Response ex_env) = (Some ''json: cannot unmarshal string into Go struct field .data of type int'', \<lparr>Success = True, Data = 0\<rparr>)"
  "json_Unmarshal ex_env (fst (ReadAll (resp_Body ex_html))) (zero_Response ex_env) = (Some ''invalid character looking for beginning of value'', \<lparr>Success = False, Data = 0\<rparr>)"
  by (simp_all add: ex_env_def ex_Unmarshal_def zero_Response_def ex_ok_def ex_missing_def ex_boom_def ex_mismatch_def ex_html_def)

lemma ex_get_fields:
  "method' (ex_get u) = ''GET''" "throwUnmarshalError (ex_get u)" "response (ex_get u) = None"
  "body (ex_get u) = None" "headers (ex_get u) = None" "url (ex_get u) = u"
  by (simp_all add: ex_get_def NewGetHttpRequestBuilder_def newBuilder_def)

lemma ex_zero: "zero_Response ex_env = \<lparr>Success = False, Data = 0\<rparr>"
  by (simp add: zero_Response_def ex_env_def)

lemma Do_eq: "Do env b = (fst (do env b)\<lparr>execTime := time_Since env\<rparr>, snd (do env b))"
  by (simp add: Do_def split: prod.splits)

lemma round_trip_decoder_free: "round_trip (env\<lparr>json_Unmarshal := f\<rparr>) b = round_trip env b"
  by (simp add: round_trip_def buildURL_def NewRequestWithContext_def apply_headers_def
      Header_Set_def Let_def cong: sum.case_cong if_cong)

lemma placeholder_decoder_free:
  "placeholder (env\<lparr>json_Unmarshal := f\<rparr>) u m = placeholder env u m"
  by (simp add: placeholder_def zero_Response_def)

lemma GetResult_network_error:
  "round_trip env b = Some (u, Inl e) \<Longrightarrow>
   GetResult env b =
     ((ensureHeaders b)\<lparr>response := Some (placeholder env u (method' b)),
                         execTime := time_Since env\<rparr>, Inl (NetworkError e))"
  by (simp add: GetResult_def Do_def do_network_error)

lemma received_fields:
  "Status (received env u m resp) = resp_Status resp"
  "Body (received env u m resp) = fst (ReadAll (resp_Body resp))"
  "StatusCode (received env u m resp) = resp_StatusCode resp"
  "Url (received env u m resp) = u" "Method (received env u m resp) = m"
  "Headers (received env u m resp) = None"
  "Result (received env u m resp) = zero_Response env"
  "ErrorsMap (received env u m resp) = None"
  by (simp_all add: received_def)

lemma GetResult_stores:
  assumes "round_trip env b = Some (u, Inr resp)"
    and "json_Unmarshal env (fst (ReadAll (resp_Body resp))) (zero_Response env) = (uerr, r)"
    and "uerr = None \<or> \<not> throwUnmarshalError b"
  shows "response (fst (GetResult env b)) = Some ((received env u (method' b) resp)\<lparr>Result := r\<rparr>)"
  using assms
  by (auto simp: GetResult_def Do_def do_received ensureHeaders_fields setDebugInfo_fields Let_def
      received_fields)

lemma Do_received:
  "round_trip env b = Some (u, Inr resp) \<Longrightarrow>
   snd (Do env b) = None \<and>
   response (fst (Do env b)) = Some (received env u (method' b) resp)"
  by (simp add: Do_eq do_received)

lemma ex_read:
  \<open>ReadAll (resp_Body ex_cut) = (''{"succ'', Some ''unexpected EOF'')\<close>
  \<open>ReadAll (resp_Body ex_ok) = (''{"success":true,"data":1}'', None)\<close>
  \<open>ReadAll (resp_Body ex_mismatch) = (''{"success":true,"data":"x"}'', None)\<close>
  by (simp_all add: ex_cut_def ex_ok_def ex_mismatch_def)

lemma ex_status:
  "resp_Status ex_ok = ''200 OK''" "resp_StatusCode ex_ok = 200"
  "resp_Status ex_cut = ''200 OK''" "resp_StatusCode ex_cut = 200"
  "resp_Status ex_mismatch = ''200 OK''" "resp_StatusCode ex_mismatch = 200"
  "resp_Header ex_ok = [(''Content-Type'', [''application/json''])]"
  by (simp_all add: ex_ok_def ex_cut_def ex_mismatch_def ex_hdr_def)

lemma SetThrowUnmarshalError_fields:
  "throwUnmarshalError (SetThrowUnmarshalError v b) = v"
  "method' (SetThrowUnmarshalError v b) = method' b"
  "response (SetThrowUnmarshalError v b) = response b"
  by (simp_all add: SetThrowUnmarshalError_def)

lemma headers_put_ensure:
  "headers (headers_put k v (ensureHeaders b)) = Some (AList.update k v (entries (headers b)))"
  by (cases "headers b") (simp_all add: headers_put_def ensureHeaders_def entries_def)

lemma headers_put_ensure_fields:
  "body (headers_put k v (ensureHeaders b)) = body b"
  "rawBodyBytes (headers_put k v (ensureHeaders b)) = rawBodyBytes b"
  by (cases "headers b"; simp add: headers_put_def ensureHeaders_def)+

lemma SetJSONBody_ok:
  "json_Marshal env v = Inr d \<Longrightarrow>
   headers (fst (SetJSONBody env v b)) =
     Some (AList.update ContentType ''application/json'' (entries (headers b)))
   \<and> body (fst (SetJSONBody env v b)) = Some d \<and> rawBodyBytes (fst (SetJSONBody env v b)) = d"
  by (simp add: SetJSONBody_def headers_put_ensure headers_put_ensure_fields)

lemma SetXMLBody_ok:
  "xml_Marshal env v = Inr d \<Longrightarrow>
   headers (fst (SetXMLBody env v b)) =
     Some (AList.update ContentType ''application/xml'' (entries (headers b)))
   \<and> body (fst (SetXMLBody env v b)) = Some d \<and> rawBodyBytes (fst (SetXMLBody env v b)) = d"
  by (simp add: SetXMLBody_def headers_put_ensure headers_put_ensure_fields)

lemma ex_marshal:
  "json_Marshal ex_env (VStr ''test'') = Inr [CHR 0x22, CHR ''t'', CHR ''e'', CHR ''s'', CHR ''t'', CHR 0x22]"
  "xml_Marshal ex_env (VStr ''test'') = Inr ''<string>test</string>''"
  "json_Marshal ex_env VChan = Inl ''json: unsupported type: chan int''"
  "xml_Marshal ex_env VChan = Inl ''xml: unsupported type: chan int''"
  by (simp_all add: ex_env_def)

lemma ex_plain_fields:
  "headers ex_plain = Some [(''Content-Type'', ''text/plain''), (''X-Request-Id'', ''abc-123'')]"
  "body ex_plain = None"
  by (simp_all add: ex_plain_def SetRequestHeaders_def NewPostHttpRequestBuilder_def newBuilder_def)

lemma map_of_Values_Set: "map_of (Values_Set q k v) = (map_of q)(k \<mapsto> [v])"
  by (simp add: Values_Set_def update_conv')

lemma keys_Values_Set: "fst ` set (Values_Set q k v) = insert k (fst ` set q)"
  by (simp add: Values_Set_def dom_update)

lemma map_of_fold_Set:
  "distinct (map fst Q) \<Longrightarrow>
   map_of (fold (\<lambda>(k, v) q. Values_Set q k v) Q q0) k =
     (case map_of Q k of Some v \<Rightarrow> Some [v] | None \<Rightarrow> map_of q0 k)"
proof (induction Q arbitrary: q0)
  case Nil
  then show ?case by simp
next
  case (Cons p Q)
  obtain a x where p: "p = (a, x)" by (cases p)
  from Cons.prems p have d: "distinct (map fst Q)" and n: "a \<notin> fst ` set Q" by auto
  from n have "map_of Q a = None" by (simp add: map_of_eq_None_iff)
  with Cons.IH [OF d, of "Values_Set q0 a x"] p show ?case
    by (simp add: map_of_Values_Set split: option.splits)
qed

lemma keys_fold_Set:
  "fst ` set (fold (\<lambda>(k, v) q. Values_Set q k v) Q q0) = fst ` set q0 \<union> fst ` set Q"
proof (induction Q arbitrary: q0)
  case Nil
  then show ?case by simp
next
  case (Cons p Q)
  then show ?case by (cases p) (auto simp: keys_Values_Set)
qed

lemma lookup_fold_Set:
  "distinct (map fst Q) \<Longrightarrow>
   Values_lookup (fold (\<lambda>(k, v) q. Values_Set q k v) Q q0) = spec_merged q0 Q"
  by (rule ext) (simp add: Values_lookup_def spec_merged_def map_of_fold_Set split: option.splits)

lemma Encode_fold_Set:
  assumes "distinct (map fst Q)"
  shows "Encode (fold (\<lambda>(k, v) q. Values_Set q k v) Q q0) = spec_query q0 Q"
proof -
  let ?q = "fold (\<lambda>(k, v) q. Values_Set q k v) Q q0"
  have "sort (remdups (map fst ?q)) = sorted_list_of_set (fst ` set ?q)"
    by (simp add: sorted_list_of_set_sort_remdups [symmetric])
  then show ?thesis
    by (simp add: Encode_def spec_query_def lookup_fold_Set [OF assms] keys_fold_Set)
qed

lemma spec_query_code:
  "spec_query q0 Q =
     Join (encode_pairs (spec_merged q0 Q) (sort (remdups (map fst q0 @ map fst Q)))) ''&''"
proof -
  have "fst ` set q0 \<union> fst ` set Q = set (map fst q0 @ map fst Q)" by simp
  then show ?thesis
    unfolding spec_query_def by (simp only: sorted_list_of_set_sort_remdups)
qed

lemma ex_paged_fields:
  "queryParams (ex_paged u) = Some [(''page'', ''2''), (''q'', ''a b'')]" "url (ex_paged u) = u"
  by (simp_all add: ex_paged_def SetQueryParams_def ex_get_fields)

lemma ex_parse:
  "url_Parse ex_env ''http://h/items?page=1&size=5'' =
     Inr \<lparr>Scheme = ''http'', Host = ''h'', Path = ''/items'', RawQuery = ''page=1&size=5'',
          Fragment = []\<rparr>"
  "url_Parse ex_env '':bad'' = Inl ''missing protocol scheme''"
  "url_ParseQuery ex_env ''page=1&size=5'' = [(''page'', [''1'']), (''size'', [''5''])]"
  by (simp_all add: ex_env_def ex_Parse_def ex_ParseQuery_def)

lemma ex_query:
  "spec_query [(''page'', [''1'']), (''size'', [''5''])] [(''page'', ''2''), (''q'', ''a b'')]
     = ''page=2&q=a+b&size=5''"
  by (simp add: spec_query_code spec_merged_def encode_pairs_def QueryEscape_def escape_byte_def
      shouldEscape_def isAlnum_def inRange_def upperhex_def)

text \<open>
  Claim C1. When the round trip succeeds and the body decodes, or strict decoding is off,
  \<open>GetResult\<close> answers by the status code alone: from 500 on it returns an error that
  carries the method, the final URL and the status code, and no result; below 500
  (400 to 499 included) it returns the populated result and no error.
\<close>

theorem GetResult_classifies_status:
  assumes "round_trip env b = Some (u, Inr resp)"
    and "json_Unmarshal env (fst (ReadAll (resp_Body resp))) (zero_Response env) = (uerr, r)"
    and "uerr = None \<or> \<not> throwUnmarshalError b"
  shows "snd (GetResult env b) =
     (if 500 \<le> resp_StatusCode resp
      then Inl (ServerError (method' b) u (resp_StatusCode resp))
      else Inr \<lparr>Status = resp_Status resp, Body = fst (ReadAll (resp_Body resp)),
                StatusCode = resp_StatusCode resp, Url = u, Method = method' b,
                Headers = None, Result = r, ErrorsMap = None\<rparr>)"
proof -
  from assms(3) have "\<not> (uerr \<noteq> None \<and> throwUnmarshalError b)" by blast
  with GetResult_received [OF assms(1) assms(2)] show ?thesis
    by (simp add: received_def)
qed

theorem GetResult_classifies_status_witness:
  "snd (GetResult ex_env (ex_get ''http://h/boom'')) = Inl (ServerError ''GET'' ''http://h/boom'' 503)
   \<and> snd (GetResult ex_env (ex_get ''http://h/missing'')) =
       Inr \<lparr>Status = ''404 Not Found'', Body = fst (ReadAll (resp_Body ex_missing)), StatusCode = 404,
            Url = ''http://h/missing'', Method = ''GET'', Headers = None,
            Result = \<lparr>Success = False, Data = 0\<rparr>, ErrorsMap = None\<rparr>
   \<and> snd (GetResult ex_env (ex_get ''http://h/items'')) =
       Inr \<lparr>Status = ''200 OK'', Body = fst (ReadAll (resp_Body ex_ok)), StatusCode = 200,
            Url = ''http://h/items'', Method = ''GET'', Headers = None,
            Result = \<lparr>Success = True, Data = 1\<rparr>, ErrorsMap = None\<rparr>"
  using GetResult_classifies_status [OF ex_rt_boom ex_decode(3)]
    GetResult_classifies_status [OF ex_rt_missing ex_decode(2)]
    GetResult_classifies_status [OF ex_rt_items ex_decode(1)]
  by (simp add: ex_boom_def ex_missing_def ex_ok_def ex_get_def NewGetHttpRequestBuilder_def newBuilder_def)

text \<open>
  Claim C5. When the transport call fails, \<open>Do\<close> ends with the network error, the stored
  response holds the final URL and the method and nothing else (no status, no body, a zero
  envelope), and \<open>GetResult\<close> hands the same error on with the builder as \<open>Do\<close> left it:
  whatever the decoder would do makes no difference to the outcome.
\<close>

theorem transport_failure_aborts:
  assumes "round_trip env b = Some (u, Inl e)"
  shows "snd (Do env b) = Some (NetworkError e)
    \<and> response (fst (Do env b)) =
        Some \<lparr>Status = [], Body = [], StatusCode = 0, Url = u, Method = method' b,
              Headers = None, Result = zero_Response env, ErrorsMap = None\<rparr>
    \<and> GetResult env b = (fst (Do env b), Inl (NetworkError e))
    \<and> (\<forall>f. GetResult (env\<lparr>json_Unmarshal := f\<rparr>) b = GetResult env b)"
proof -
  have rt: "round_trip (env\<lparr>json_Unmarshal := f\<rparr>) b = Some (u, Inl e)" for f
    using assms by (simp add: round_trip_decoder_free)
  have "GetResult (env\<lparr>json_Unmarshal := f\<rparr>) b = GetResult env b" for f
    by (simp add: GetResult_network_error [OF rt] GetResult_network_error [OF assms]
        placeholder_decoder_free)
  then show ?thesis
    by (simp add: GetResult_network_error [OF assms] Do_eq do_network_error [OF assms]
        placeholder_def)
qed

theorem transport_failure_aborts_witness:
  "round_trip ex_env (ex_get ''http://h/down'') = Some (''http://h/down'', Inl ''dial tcp: connection refused'')
   \<and> snd (GetResult ex_env (ex_get ''http://h/down'')) = Inl (NetworkError ''dial tcp: connection refused'')
   \<and> response (fst (Do ex_env (ex_get ''http://h/down''))) =
        Some \<lparr>Status = [], Body = [], StatusCode = 0, Url = ''http://h/down'', Method = ''GET'',
              Headers = None, Result = \<lparr>Success = False, Data = 0\<rparr>, ErrorsMap = None\<rparr>"
  using transport_failure_aborts [OF ex_rt_down]
  by (simp add: ex_rt_down ex_get_fields ex_zero)

text \<open>
  Claim C9. \<open>Do\<close> alone never decodes: whatever the status code and the body, a stored
  response whose envelope and error details were zero (or absent) is still so afterwards,
  and whenever the call reaches the transport the response it stores has both at zero.
  Only \<open>GetResult\<close> fills the envelope.
\<close>

theorem Do_leaves_envelope_zero:
  assumes "envelope_zero env (response b) \<or> round_trip env b \<noteq> None"
  shows "envelope_zero env (response (fst (Do env b)))"
proof (cases "round_trip env b")
  case None
  with do_stopped [OF None] assms show ?thesis
    by (auto simp: Do_eq ensureHeaders_fields)
next
  case (Some p)
  obtain u out where p: "p = (u, out)" by (cases p)
  show ?thesis
  proof (cases out)
    case (Inl e)
    with Some p have "round_trip env b = Some (u, Inl e)" by simp
    from do_network_error [OF this] show ?thesis
      by (simp add: Do_eq envelope_zero_def placeholder_def)
  next
    case (Inr resp)
    with Some p have "round_trip env b = Some (u, Inr resp)" by simp
    from do_received [OF this] show ?thesis
      by (simp add: Do_eq envelope_zero_def received_def)
  qed
qed

theorem Do_leaves_envelope_zero_witness:
  "envelope_zero ex_env (response (ex_get ''http://h/items''))
   \<and> envelope_zero ex_env (response (fst (Do ex_env (ex_get ''http://h/items''))))
   \<and> map_option Result (response (fst (GetResult ex_env (ex_get ''http://h/items'')))) = Some \<lparr>Success = True, Data = 1\<rparr>"
proof -
  have h: "envelope_zero ex_env (response (ex_get ''http://h/items''))"
    by (simp add: envelope_zero_def ex_get_fields)
  have g: "map_option Result (response (fst (GetResult ex_env (ex_get ''http://h/items'')))) = Some \<lparr>Success = True, Data = 1\<rparr>"
    by (simp add: GetResult_stores [OF ex_rt_items ex_decode(1)])
  from h g Do_leaves_envelope_zero [of ex_env "ex_get ''http://h/items''"] show ?thesis by simp
qed

text \<open>
  Claim C2, as the code has it. When the decoder reports an error on the body of a
  received response: with strict decoding on (the default of every new builder)
  \<open>GetResult\<close> returns the decoder's error and no result, whatever the status code; with
  strict decoding off no error is raised for the decode step, the status code alone decides
  as in C1, and the envelope of the result is the value the decoder left in the
  zero-initialised variable. That value is the zero envelope only when the decoder wrote
  nothing before it failed: \<^verbatim>\<open>json.Unmarshal\<close> keeps the fields it has decoded when a later
  field has the wrong type.
\<close>

theorem decode_failure_by_strictness:
  assumes "round_trip env b = Some (u, Inr resp)"
    and "json_Unmarshal env (fst (ReadAll (resp_Body resp))) (zero_Response env) = (Some e, r)"
  shows "snd (GetResult env b) =
     (if throwUnmarshalError b then Inl (UnmarshalError e)
      else if 500 \<le> resp_StatusCode resp
        then Inl (ServerError (method' b) u (resp_StatusCode resp))
      else Inr \<lparr>Status = resp_Status resp, Body = fst (ReadAll (resp_Body resp)),
                StatusCode = resp_StatusCode resp, Url = u, Method = method' b,
                Headers = None, Result = r, ErrorsMap = None\<rparr>)
    \<and> throwUnmarshalError (newBuilder env c rawURL m)"
  using GetResult_received [OF assms]
  by (simp add: received_def newBuilder_def)

theorem decode_failure_by_strictness_witness:
  \<open>snd (GetResult ex_env (SetThrowUnmarshalError True (ex_get ''http://h/html''))) =
     Inl (UnmarshalError ''invalid character looking for beginning of value'')
   \<and> snd (GetResult ex_env (SetThrowUnmarshalError False (ex_get ''http://h/html''))) =
     Inr \<lparr>Status = ''200 OK'', Body = ''<html>'', StatusCode = 200, Url = ''http://h/html'',
          Method = ''GET'', Headers = None, Result = \<lparr>Success = False, Data = 0\<rparr>,
          ErrorsMap = None\<rparr>\<close>
  using decode_failure_by_strictness [OF ex_rt_html [of True] ex_decode(5)]
    decode_failure_by_strictness [OF ex_rt_html [of False] ex_decode(5)]
  by (simp add: SetThrowUnmarshalError_fields ex_get_fields ex_html_def)

text \<open>
  The claim as stated fails: the body \<^verbatim>\<open>{"success":true,"data":"x"}\<close> does not decode
  into an envelope with an \<open>int\<close> payload, and with strict decoding off the result's
  envelope has \<open>Success = True\<close>, which is not the zero envelope.
\<close>

theorem decode_failure_envelope_counterexample:
  \<open>fst (json_Unmarshal ex_env ''{"success":true,"data":"x"}'' (zero_Response ex_env)) \<noteq> None
   \<and> \<not> throwUnmarshalError (SetThrowUnmarshalError False (ex_get ''http://h/mismatch''))
   \<and> snd (GetResult ex_env (SetThrowUnmarshalError False (ex_get ''http://h/mismatch''))) =
     Inr \<lparr>Status = ''200 OK'', Body = ''{"success":true,"data":"x"}'', StatusCode = 200,
          Url = ''http://h/mismatch'', Method = ''GET'', Headers = None,
          Result = \<lparr>Success = True, Data = 0\<rparr>, ErrorsMap = None\<rparr>
   \<and> \<lparr>Success = True, Data = 0\<rparr> \<noteq> zero_Response ex_env\<close>
  using GetResult_received [OF ex_rt_mismatch [of False] ex_decode(4)] ex_decode(4)
  by (simp add: SetThrowUnmarshalError_fields ex_get_fields ex_read ex_status ex_zero received_def)

text \<open>
  Claim C6, as the code has it. After a successful round trip the stored response carries
  the status line, the status code and the raw bytes under the final URL and the method;
  its \<open>Headers\<close> mapping is nil (the headers of the received response are not copied) and
  its error-detail mapping is nil. The same holds of every result \<open>GetResult\<close> returns.
\<close>

theorem result_carries_status_and_bytes:
  assumes "round_trip env b = Some (u, Inr resp)"
  shows "response (fst (Do env b)) =
      Some \<lparr>Status = resp_Status resp, Body = fst (ReadAll (resp_Body resp)),
            StatusCode = resp_StatusCode resp, Url = u, Method = method' b,
            Headers = None, Result = zero_Response env, ErrorsMap = None\<rparr>
    \<and> (\<forall>r. snd (GetResult env b) = Inr r \<longrightarrow>
          Status r = resp_Status resp \<and> StatusCode r = resp_StatusCode resp
          \<and> Body r = fst (ReadAll (resp_Body resp)) \<and> Url r = u \<and> Method r = method' b
          \<and> Headers r = None \<and> ErrorsMap r = None)"
proof -
  obtain uerr r0 where
    d: "json_Unmarshal env (fst (ReadAll (resp_Body resp))) (zero_Response env) = (uerr, r0)"
    by (cases "json_Unmarshal env (fst (ReadAll (resp_Body resp))) (zero_Response env)")
  have "\<forall>r. snd (GetResult env b) = Inr r \<longrightarrow>
          Status r = resp_Status resp \<and> StatusCode r = resp_StatusCode resp
          \<and> Body r = fst (ReadAll (resp_Body resp)) \<and> Url r = u \<and> Method r = method' b
          \<and> Headers r = None \<and> ErrorsMap r = None"
    using GetResult_received [OF assms d]
    by (auto simp: received_fields split: if_splits)
  with Do_received [OF assms] show ?thesis
    by (simp add: received_def)
qed

theorem result_carries_status_and_bytes_witness:
  \<open>response (fst (Do ex_env (ex_get ''http://h/items''))) =
      Some \<lparr>Status = ''200 OK'', Body = ''{"success":true,"data":1}'', StatusCode = 200,
            Url = ''http://h/items'', Method = ''GET'', Headers = None,
            Result = \<lparr>Success = False, Data = 0\<rparr>, ErrorsMap = None\<rparr>\<close>
  using result_carries_status_and_bytes [OF ex_rt_items]
  by (simp add: ex_get_fields ex_read ex_status ex_zero)

text \<open>
  The claim as stated fails: the received response has a \<^verbatim>\<open>Content-Type\<close> header and the
  returned result has no headers mapping at all.
\<close>

theorem response_headers_counterexample:
  \<open>round_trip ex_env (ex_get ''http://h/items'') = Some (''http://h/items'', Inr ex_ok)
   \<and> resp_Header ex_ok = [(''Content-Type'', [''application/json''])]
   \<and> snd (GetResult ex_env (ex_get ''http://h/items'')) =
       Inr \<lparr>Status = ''200 OK'', Body = ''{"success":true,"data":1}'', StatusCode = 200,
            Url = ''http://h/items'', Method = ''GET'', Headers = None,
            Result = \<lparr>Success = True, Data = 1\<rparr>, ErrorsMap = None\<rparr>\<close>
  using GetResult_received [OF ex_rt_items ex_decode(1)]
  by (simp add: ex_rt_items ex_get_fields ex_read ex_status received_def)

text \<open>
  Claim C8, as the code has it. When reading the body of a received response ends with an
  error, \<open>Do\<close> returns no error, the status line and the status code are recorded as
  received, and the stored body is what \<^verbatim>\<open>io.ReadAll\<close> returned beside the error: the
  bytes read before the failure.
\<close>

theorem body_read_failure_is_swallowed:
  assumes "round_trip env b = Some (u, Inr resp)"
    and "ReadAll (resp_Body resp) = (bs, Some e)"
  shows "snd (Do env b) = None
    \<and> response (fst (Do env b)) =
        Some \<lparr>Status = resp_Status resp, Body = bs, StatusCode = resp_StatusCode resp,
              Url = u, Method = method' b, Headers = None, Result = zero_Response env,
              ErrorsMap = None\<rparr>"
  using Do_received [OF assms(1)] assms(2)
  by (simp add: received_def)

theorem body_read_failure_is_swallowed_witness:
  \<open>ReadAll (resp_Body ex_cut) = (''{"succ'', Some ''unexpected EOF'')
   \<and> snd (Do ex_env (ex_get ''http://h/cut'')) = None
   \<and> response (fst (Do ex_env (ex_get ''http://h/cut''))) =
        Some \<lparr>Status = ''200 OK'', Body = ''{"succ'', StatusCode = 200,
              Url = ''http://h/cut'', Method = ''GET'', Headers = None,
              Result = \<lparr>Success = False, Data = 0\<rparr>, ErrorsMap = None\<rparr>\<close>
  using body_read_failure_is_swallowed [OF ex_rt_cut ex_read(1)]
  by (simp add: ex_read ex_get_fields ex_status ex_zero)

text \<open>
  The claim as stated fails: a body that breaks off after six bytes leaves those six bytes
  in the stored response, not the empty byte sequence.
\<close>

theorem body_read_failure_counterexample:
  \<open>snd (ReadAll (resp_Body ex_cut)) = Some ''unexpected EOF''
   \<and> snd (Do ex_env (ex_get ''http://h/cut'')) = None
   \<and> map_option Body (response (fst (Do ex_env (ex_get ''http://h/cut'')))) = Some ''{"succ''
   \<and> ''{"succ'' \<noteq> ([] :: bytes)\<close>
  using Do_received [OF ex_rt_cut]
  by (simp add: ex_read received_fields)

text \<open>
  Claim C4. For every builder and every value that serialises: after \<open>SetJSONBody\<close> the
  headers hold \<^verbatim>\<open>Content-Type: application/json\<close>, after \<open>SetXMLBody\<close> they hold
  \<^verbatim>\<open>Content-Type: application/xml\<close>, whatever was stored under that key before, and no other
  header changes; the body bytes are those of the value. Of two body setters called in
  sequence the later one decides the body and the content type.
\<close>

theorem body_setters_force_content_type:
  assumes "json_Marshal env v = Inr dj" and "xml_Marshal env w = Inr dx"
  shows "map_of (entries (headers (fst (SetJSONBody env v b)))) ContentType = Some ''application/json''
    \<and> map_of (entries (headers (fst (SetXMLBody env w b)))) ContentType = Some ''application/xml''
    \<and> (\<forall>k. k \<noteq> ContentType \<longrightarrow>
          map_of (entries (headers (fst (SetJSONBody env v b)))) k = map_of (entries (headers b)) k
          \<and> map_of (entries (headers (fst (SetXMLBody env w b)))) k = map_of (entries (headers b)) k)
    \<and> body (fst (SetJSONBody env v b)) = Some dj \<and> rawBodyBytes (fst (SetJSONBody env v b)) = dj
    \<and> body (fst (SetXMLBody env w b)) = Some dx \<and> rawBodyBytes (fst (SetXMLBody env w b)) = dx
    \<and> body (fst (SetXMLBody env w (fst (SetJSONBody env v b)))) = Some dx
    \<and> map_of (entries (headers (fst (SetXMLBody env w (fst (SetJSONBody env v b)))))) ContentType
        = Some ''application/xml''
    \<and> body (fst (SetJSONBody env v (fst (SetXMLBody env w b)))) = Some dj
    \<and> map_of (entries (headers (fst (SetJSONBody env v (fst (SetXMLBody env w b)))))) ContentType
        = Some ''application/json''"
  by (simp add: SetJSONBody_ok [OF assms(1)] SetXMLBody_ok [OF assms(2)] entries_simps
      update_conv')

theorem body_setters_force_content_type_witness:
  "map_of (entries (headers ex_plain)) ''Content-Type'' = Some ''text/plain''
   \<and> map_of (entries (headers (fst (SetJSONBody ex_env (VStr ''test'') ex_plain)))) ''Content-Type''
        = Some ''application/json''
   \<and> map_of (entries (headers (fst (SetJSONBody ex_env (VStr ''test'') ex_plain)))) ''X-Request-Id''
        = Some ''abc-123''
   \<and> body (fst (SetXMLBody ex_env (VStr ''test'') (fst (SetJSONBody ex_env (VStr ''test'') ex_plain))))
        = Some ''<string>test</string>''
   \<and> map_of (entries (headers (fst (SetXMLBody ex_env (VStr ''test'')
          (fst (SetJSONBody ex_env (VStr ''test'') ex_plain)))))) ''Content-Type''
        = Some ''application/xml''"
  using body_setters_force_content_type [OF ex_marshal(1) ex_marshal(2), of ex_plain]
  by (simp add: ContentType_def ex_plain_fields entries_simps)

text \<open>
  Claim C7, as the code has it. When the JSON (respectively XML) serialisation of a value
  fails, \<open>SetJSONBody\<close> (respectively \<open>SetXMLBody\<close>) hands the error to the logger,
  raises no error and returns the builder exactly as it was: the body and the headers, and
  with them the content type, are what they were before the call. On a builder that has no
  body yet, such as a new one, the body stays unset and the request goes out without a
  body; a body set by an earlier successful call is kept.
\<close>

theorem failed_serialization_leaves_builder:
  "(json_Marshal env v = Inl e \<longrightarrow>
      SetJSONBody env v b = (b, [e])
      \<and> body (fst (SetJSONBody env v b)) = body b
      \<and> headers (fst (SetJSONBody env v b)) = headers b
      \<and> body (fst (SetJSONBody env v (newBuilder env c rawURL m))) = None)
   \<and> (xml_Marshal env v = Inl e \<longrightarrow>
      SetXMLBody env v b = (b, [e])
      \<and> body (fst (SetXMLBody env v b)) = body b
      \<and> headers (fst (SetXMLBody env v b)) = headers b
      \<and> body (fst (SetXMLBody env v (newBuilder env c rawURL m))) = None)"
  by (simp add: SetJSONBody_def SetXMLBody_def newBuilder_def)

theorem failed_serialization_leaves_builder_witness:
  "json_Marshal ex_env VChan = Inl ''json: unsupported type: chan int''
   \<and> SetJSONBody ex_env VChan ex_plain = (ex_plain, [''json: unsupported type: chan int''])
   \<and> body (fst (SetJSONBody ex_env VChan ex_plain)) = None
   \<and> map_of (entries (headers (fst (SetJSONBody ex_env VChan ex_plain)))) ''Content-Type''
        = Some ''text/plain''"
  using failed_serialization_leaves_builder [of ex_env VChan "''json: unsupported type: chan int''" ex_plain]
  by (simp add: ex_marshal ex_plain_fields entries_simps)

text \<open>
  The claim as stated fails: after a successful \<open>SetJSONBody\<close>, a \<open>SetXMLBody\<close> whose
  serialisation fails leaves the JSON bytes as the body and \<^verbatim>\<open>application/json\<close> as the
  content type, so the body is set and the request does not go out without a body.
\<close>

theorem failed_serialization_keeps_body_counterexample:
  "xml_Marshal ex_env VChan = Inl ''xml: unsupported type: chan int''
   \<and> body (fst (SetXMLBody ex_env VChan (fst (SetJSONBody ex_env (VStr ''test'') ex_plain))))
        = Some [CHR 0x22, CHR ''t'', CHR ''e'', CHR ''s'', CHR ''t'', CHR 0x22]
   \<and> body (fst (SetXMLBody ex_env VChan (fst (SetJSONBody ex_env (VStr ''test'') ex_plain))))
        \<noteq> None
   \<and> map_of (entries (headers
          (fst (SetXMLBody ex_env VChan (fst (SetJSONBody ex_env (VStr ''test'') ex_plain))))))
        ''Content-Type'' = Some ''application/json''"
  using SetJSONBody_ok [OF ex_marshal(1), of ex_plain]
  by (simp add: SetXMLBody_def ex_marshal(4) entries_simps ContentType_def ex_plain_fields)

text \<open>
  Claim C3. With no query parameters configured the composed URL is the base URL, unchanged
  and unparsed. Otherwise the base URL is parsed; a parse failure is returned as an
  \<open>InvalidURL\<close> error; on success the raw query of the parsed URL is replaced by
  \<open>spec_query\<close> of its existing query values and the configured parameters: every
  configured key holds exactly its configured value (overwriting a key of the same name,
  added otherwise), every other key keeps its values, and the pairs are written escaped,
  in the order of the sorted keys. The keys of a Go map are distinct.
\<close>

theorem buildURL_merges_query:
  assumes "distinct (map fst (entries (queryParams b)))"
  shows "buildURL env b =
     (if entries (queryParams b) = [] then Inr (url b)
      else case url_Parse env (url b) of
             Inl e \<Rightarrow> Inl (InvalidURL e)
           | Inr u \<Rightarrow>
               Inr (URL_String env
                 (u\<lparr>RawQuery :=
                      spec_query (url_ParseQuery env (RawQuery u)) (entries (queryParams b))\<rparr>)))"
  by (simp add: buildURL_def Let_def Encode_fold_Set [OF assms] split: sum.splits)

theorem buildURL_merges_query_witness:
  "distinct (map fst (entries (queryParams (ex_paged ''http://h/items?page=1&size=5''))))
   \<and> buildURL ex_env (ex_paged ''http://h/items?page=1&size=5'')
        = Inr ''http://h/items?page=2&q=a+b&size=5''
   \<and> buildURL ex_env (ex_paged '':bad'') = Inl (InvalidURL ''missing protocol scheme'')
   \<and> buildURL ex_env (ex_get ''http://h/items?page=1&size=5'')
        = Inr ''http://h/items?page=1&size=5''"
proof -
  have d: "distinct (map fst (entries (queryParams (ex_paged u))))" for u
    by (simp add: ex_paged_fields entries_simps)
  have e: "distinct (map fst (entries (queryParams (ex_get u))))" for u
    by (simp add: ex_get_def NewGetHttpRequestBuilder_def newBuilder_def entries_simps)
  have q: "queryParams (ex_get u) = None" for u
    by (simp add: ex_get_def NewGetHttpRequestBuilder_def newBuilder_def)
  have s: "URL_String ex_env \<lparr>Scheme = ''http'', Host = ''h'', Path = ''/items'',
      RawQuery = ''page=2&q=a+b&size=5'', Fragment = []\<rparr> = ''http://h/items?page=2&q=a+b&size=5''"
    by (simp add: ex_env_def ex_String_def)
  from buildURL_merges_query [OF d, of ex_env "''http://h/items?page=1&size=5''"]
    buildURL_merges_query [OF d, of ex_env "'':bad''"]
    buildURL_merges_query [OF e, of ex_env "''http://h/items?page=1&size=5''"]
    d s q
  show ?thesis
    by (simp add: ex_paged_fields ex_get_fields entries_simps ex_parse ex_query)
qed

text \<open>
  Claim C10. With a nil or empty query-parameter mapping \<open>buildURL\<close> returns the base URL
  whatever the URL parser would say of it, so it never fails; a base URL the parser rejects
  is refused one step later, when \<open>do\<close> constructs the outbound request, and \<open>do\<close> then
  ends with that error before anything is sent or stored.
\<close>

theorem buildURL_skips_parse_without_params:
  assumes "entries (queryParams b) = []"
  shows "buildURL env b = Inr (url b)
    \<and> (\<forall>f. buildURL (env\<lparr>url_Parse := f\<rparr>) b = Inr (url b))
    \<and> (\<forall>e. url_Parse env (url b) = Inl e \<longrightarrow>
          do env b =
            (ensureHeaders b,
             Some (RequestConstructionError
               (if validMethod (if method' b = [] then ''GET'' else method' b) then e
                else ''net/http: invalid method '' @ (if method' b = [] then ''GET'' else method' b)))))"
proof -
  have u: "buildURL env b = Inr (url b)"
    using assms by (simp add: buildURL_def)
  have f: "buildURL (env\<lparr>url_Parse := f\<rparr>) b = Inr (url b)" for f
    using assms by (simp add: buildURL_def)
  show ?thesis
    by (auto simp: u f do_def Let_def buildURL_ensureHeaders ensureHeaders_fields
        NewRequestWithContext_def)
qed

theorem buildURL_skips_parse_without_params_witness:
  "entries (queryParams (ex_get '':bad'')) = []
   \<and> url_Parse ex_env '':bad'' = Inl ''missing protocol scheme''
   \<and> buildURL ex_env (ex_get '':bad'') = Inr '':bad''
   \<and> snd (do ex_env (ex_get '':bad'')) = Some (RequestConstructionError ''missing protocol scheme'')"
proof -
  have q: "entries (queryParams (ex_get '':bad'')) = []"
    by (simp add: ex_get_def NewGetHttpRequestBuilder_def newBuilder_def entries_simps)
  have m: "validMethod ''GET''"
    by (simp add: validMethod_def isTokenChar_def isAlnum_def inRange_def)
  from buildURL_skips_parse_without_params [OF q, of ex_env] q m show ?thesis
    by (simp add: ex_parse ex_get_fields)
qed

end
